theory Spec2Isabelle
  imports Main
begin

section \<open>Data model\<close>

text \<open>
  The type declarations of \<^verbatim>\<open>app/types\<close> (\<^verbatim>\<open>ResolutionStatusDetails\<close>,
  \<^verbatim>\<open>GroupActivity\<close>, \<^verbatim>\<open>GroupActivityType\<close>, \<^verbatim>\<open>User\<close>, \<^verbatim>\<open>Commit\<close>) are imported by
  the sources but not part of them. They are modelled from the data model of the
  specification and from the fields the code reads. An optional property
  (\<^verbatim>\<open>field?: T\<close>) is a value of type \<open>T option\<close>, \<open>None\<close> standing for
  \<^verbatim>\<open>undefined\<close>.
\<close>

text \<open>Modelled from the spec: the \<^verbatim>\<open>User\<close> type; the code reads its \<^verbatim>\<open>name\<close> and hands
  the whole object to the avatar.\<close>

record User =
  name :: string

text \<open>Modelled from the spec: the \<^verbatim>\<open>Repository\<close> type, handed unread to the commit link.\<close>

type_synonym Repository = string

text \<open>Modelled from the spec: the \<^verbatim>\<open>Commit\<close> type, a reference
  \<^verbatim>\<open>{id, repository, dateCreated}\<close>. The field \<^verbatim>\<open>id\<close> is named \<open>commit_id\<close>, since
  \<open>id\<close> is the identity function of HOL.\<close>

record Commit =
  commit_id :: string
  repository :: "Repository option"
  dateCreated :: string

text \<open>Modelled from the spec: \<^verbatim>\<open>ResolutionStatusDetails\<close>, every field optional.\<close>

record ResolutionStatusDetails =
  actor :: "User option"
  inNextRelease :: "bool option"
  inRelease :: "string option"
  inCommit :: "Commit option"

text \<open>Modelled from the spec: the enumeration \<^verbatim>\<open>GroupActivityType\<close>. The code names one
  member, \<^verbatim>\<open>SET_RESOLVED_IN_RELEASE\<close>; every other member is \<open>OTHER_ACTIVITY\<close> with its
  tag.\<close>

datatype GroupActivityType = SET_RESOLVED_IN_RELEASE | OTHER_ACTIVITY string

text \<open>Modelled from the spec: the payload of an activity, of which the code reads the
  optional \<^verbatim>\<open>current_release_version\<close>, and the activity itself, a type tag and a
  payload.\<close>

record ActivityData =
  current_release_version :: "string option"

record GroupActivity =
  type :: GroupActivityType
  data :: ActivityData

section \<open>Rendered output\<close>

text \<open>
  The function returns what \<^verbatim>\<open>t\<close> and \<^verbatim>\<open>tct\<close> of \<^verbatim>\<open>app/locale\<close> return: a
  message template, for \<^verbatim>\<open>tct\<close> together with the components bound to its
  placeholders. The components are React elements; each element of the source is a
  constructor carrying the props the source gives it, as the JavaScript values they are
  (an optional value stays optional).
\<close>

datatype node =
    Null
  | Text string
  | T string
  | Tct string "(string \<times> node) list"
  | Strong "node list"
  | Span "nat option" "node list"
  | UserAvatar "User option" nat string
  | Version "string option" string bool
  | Fragment "node list"
  | CommitLink string "Repository option"
  | StyledTimeSince string
  | StyledIconCheckmark string
  | BannerSummary "node list"
  | BannerContainer string "node list"

text \<open>A property read from \<^verbatim>\<open>undefined\<close> throws a \<^verbatim>\<open>TypeError\<close>; this is the only way
  the code under study can fail.\<close>

datatype error = TypeError

section \<open>Truthiness\<close>

text \<open>The conditions of the source are JavaScript truthiness tests: an optional boolean is
  truthy when it is \<^verbatim>\<open>true\<close>, an optional string when it is present and not empty, an
  optional object when it is present.\<close>

definition truthy_bool :: "bool option \<Rightarrow> bool" where
  "truthy_bool b = (b = Some True)"

definition truthy_str :: "string option \<Rightarrow> bool" where
  "truthy_str s = (case s of None \<Rightarrow> False | Some v \<Rightarrow> v \<noteq> [])"

definition truthy_obj :: "'a option \<Rightarrow> bool" where
  "truthy_obj x = (x \<noteq> None)"

section \<open>renderReason\<close>

text \<open>The constant \<^verbatim>\<open>actor\<close> of the source: the badge of the actor, or \<^verbatim>\<open>null\<close>.\<close>

definition actor_node :: "User option \<Rightarrow> error + node" where
  "actor_node a =
     (if truthy_obj a
      then (case a of
              None \<Rightarrow> Inl TypeError
            | Some u \<Rightarrow> Inr (Strong [UserAvatar a 20 ''avatar'', Span (Some 5) [Text (name u)]]))
      else Inr Null)"

text \<open>The constants \<^verbatim>\<open>relevantActivity\<close> and \<^verbatim>\<open>currentReleaseVersion\<close>:
  \<^verbatim>\<open>Array.prototype.find\<close> is the first element that satisfies the test, and the optional
  chain gives \<^verbatim>\<open>undefined\<close> when there is none.\<close>

definition relevantActivity :: "GroupActivity list \<Rightarrow> GroupActivity option" where
  "relevantActivity activities =
     find (\<lambda>activity. type activity = SET_RESOLVED_IN_RELEASE) activities"

definition currentReleaseVersion :: "GroupActivity list \<Rightarrow> string option" where
  "currentReleaseVersion activities =
     (case relevantActivity activities of
        None \<Rightarrow> None
      | Some a \<Rightarrow> current_release_version (data a))"

definition renderReason ::
  "ResolutionStatusDetails \<Rightarrow> string \<Rightarrow> GroupActivity list \<Rightarrow> error + node" where
  "renderReason statusDetails projectId activities =
     (case actor_node (actor statusDetails) of
        Inl e \<Rightarrow> Inl e
      | Inr actorEl \<Rightarrow>
     (let crv = currentReleaseVersion activities in
      if truthy_bool (inNextRelease statusDetails) \<and> truthy_obj (actor statusDetails) then
        Inr (Tct ''[actor] marked this issue as resolved in the upcoming release.''
               [(''actor'', actorEl)])
      else if truthy_bool (inNextRelease statusDetails) then
        Inr (T ''This issue has been marked as resolved in the upcoming release.'')
      else if truthy_str (inRelease statusDetails) \<and> truthy_obj (actor statusDetails) then
        (if truthy_str crv
         then Inr (Tct ''[actor] marked this issue as resolved in versions greater than [version].''
                     [(''actor'', actorEl), (''version'', Version crv projectId True)])
         else Inr (Tct ''[actor] marked this issue as resolved in version [version].''
                     [(''actor'', actorEl),
                      (''version'', Version (inRelease statusDetails) projectId True)]))
      else if truthy_str (inRelease statusDetails) then
        (if truthy_str crv
         then Inr (Tct ''This issue has been marked as resolved in versions greater than [version].''
                     [(''version'', Version crv projectId True)])
         else Inr (Tct ''This issue has been marked as resolved in version [version].''
                     [(''version'', Version (inRelease statusDetails) projectId True)]))
      else if truthy_obj (inCommit statusDetails) then
        (case inCommit statusDetails of
           None \<Rightarrow> Inl TypeError
         | Some c \<Rightarrow>
             Inr (Tct ''This issue has been marked as resolved by [commit]''
                    [(''commit'',
                      Fragment [CommitLink (commit_id c) (repository c),
                                StyledTimeSince (dateCreated c)])]))
      else Inr (T ''This issue has been marked as resolved.'')))"

section \<open>ResolutionBox\<close>

text \<open>The props of the component; \<^verbatim>\<open>activities\<close> is optional and defaults to the empty
  array in the parameter list.\<close>

record Props =
  statusDetails :: ResolutionStatusDetails
  projectId :: string
  activities :: "GroupActivity list option"

definition ResolutionBox :: "Props \<Rightarrow> error + node" where
  "ResolutionBox props =
     (let activities = (case activities props of None \<Rightarrow> [] | Some acts \<Rightarrow> acts) in
      case renderReason (statusDetails props) (projectId props) activities of
        Inl e \<Rightarrow> Inl e
      | Inr reason \<Rightarrow>
          Inr (BannerContainer ''default''
                 [BannerSummary [StyledIconCheckmark ''green300'', Span None [reason]]]))"

section \<open>getIncidentDiscoverUrl\<close>

text \<open>
  The types \<^verbatim>\<open>Project\<close>, \<^verbatim>\<open>Incident\<close>, \<^verbatim>\<open>IncidentStats\<close>, \<^verbatim>\<open>NewQuery\<close> and \<^verbatim>\<open>Dataset\<close>
  are imported by the source, as are the helpers \<^verbatim>\<open>getAggregateAlias\<close>,
  \<^verbatim>\<open>getStartEndFromStats\<close> and the class \<^verbatim>\<open>EventView\<close>. The types are modelled by the
  fields the function reads; the helpers are parameters of the model.
\<close>

text \<open>A JavaScript value as the function stores it in an object: a query is an object,
  here a map from property names to values, so that the spread of \<^verbatim>\<open>extraQueryParams\<close> is
  the override of one map by another. The type \<open>'n\<close> is that of the numbers
  \<^verbatim>\<open>Number(id)\<close> returns.\<close>

datatype 'n jsvalue =
    Undefined
  | Str string
  | Num nat
  | StrList "string list"
  | NumList "'n list"

type_synonym 'n jsobject = "string \<rightharpoonup> 'n jsvalue"

text \<open>The field \<^verbatim>\<open>id\<close> of a project is named \<open>project_id\<close>.\<close>

record Project =
  project_id :: string
  slug :: string

datatype Dataset = ERRORS | TRANSACTIONS

record AlertRule =
  timeWindow :: nat
  aggregate :: string
  dataset :: Dataset

text \<open>The field \<^verbatim>\<open>projects\<close> of an incident, the slugs of its projects, is named
  \<open>project_slugs\<close>: the options of the function have a field \<^verbatim>\<open>projects\<close> too.\<close>

record Incident =
  title :: string
  discoverQuery :: "string option"
  project_slugs :: "string list"
  alertRule :: AlertRule

text \<open>What \<^verbatim>\<open>getResultsViewUrlTarget\<close> returns: an object with a \<^verbatim>\<open>query\<close> and the
  remaining properties, which the function copies unread.\<close>

record ('n, 'r) UrlTarget =
  query :: "'n jsobject"
  toObject :: 'r

text \<open>The argument of the function. \<^verbatim>\<open>projects\<close> is declared required, but the function
  tests it, so it is optional here as \<^verbatim>\<open>incident\<close> and \<^verbatim>\<open>stats\<close> are.\<close>

record ('n, 'stats) Opts =
  orgSlug :: string
  projects :: "Project list option"
  incident :: "Incident option"
  stats :: "'stats option"
  extraQueryParams :: "'n jsobject option"

text \<open>The imported helpers, and the conversion \<^verbatim>\<open>Number\<close> of the language.\<close>

record ('n, 'stats, 'view, 'r) Helpers =
  getAggregateAlias :: "string \<Rightarrow> string"
  getStartEndFromStats :: "'stats \<Rightarrow> string \<times> string"
  Number :: "string \<Rightarrow> 'n"
  fromSavedQuery :: "'n jsobject \<Rightarrow> 'view"
  getResultsViewUrlTarget :: "'view \<Rightarrow> string \<Rightarrow> ('n, 'r) UrlTarget"

text \<open>The result: the empty string, or a target.\<close>

datatype ('n, 'r) DiscoverUrl =
    StringResult string
  | TargetResult "('n, 'r) UrlTarget"

text \<open>The decimal digits of a number, as a template literal prints a natural number.\<close>

fun number_to_string :: "nat \<Rightarrow> string" where
  "number_to_string n =
     (if n < 10 then [''0123456789'' ! n]
      else number_to_string (n div 10) @ [''0123456789'' ! (n mod 10)])"

declare number_to_string.simps [simp del]

definition getIncidentDiscoverUrl ::
  "('n, 'stats, 'view, 'r) Helpers \<Rightarrow> ('n, 'stats) Opts \<Rightarrow> ('n, 'r) DiscoverUrl" where
  "getIncidentDiscoverUrl ext opts =
     (case projects opts of
        None \<Rightarrow> StringResult ''''
      | Some ps \<Rightarrow>
     if length ps = 0 then StringResult ''''
     else
     (case incident opts of
        None \<Rightarrow> StringResult ''''
      | Some inc \<Rightarrow>
     (case stats opts of
        None \<Rightarrow> StringResult ''''
      | Some st \<Rightarrow>
     (let timeWindowString = number_to_string (timeWindow (alertRule inc)) @ ''m'';
          (start, end') = getStartEndFromStats ext st;
          discoverQuery =
            [''id'' \<mapsto> Undefined,
             ''name'' \<mapsto> Str (if title inc \<noteq> [] then title inc else ''''),
             ''orderby'' \<mapsto> Str (''-'' @ getAggregateAlias ext (aggregate (alertRule inc))),
             ''yAxis'' \<mapsto>
               (if aggregate (alertRule inc) \<noteq> [] then StrList [aggregate (alertRule inc)]
                else Undefined),
             ''query'' \<mapsto> Str (case discoverQuery inc of None \<Rightarrow> '''' | Some q \<Rightarrow> q),
             ''projects'' \<mapsto>
               NumList (map (\<lambda>p. Number ext (project_id p))
                          (filter (\<lambda>p. slug p \<in> set (project_slugs inc)) ps)),
             ''version'' \<mapsto> Num 2,
             ''fields'' \<mapsto>
               StrList (if dataset (alertRule inc) = ERRORS
                        then [''issue'', ''count()'', ''count_unique(user)'']
                        else [''transaction'', aggregate (alertRule inc)]),
             ''start'' \<mapsto> Str start,
             ''end'' \<mapsto> Str end']
            ++ (case extraQueryParams opts of None \<Rightarrow> Map.empty | Some extra \<Rightarrow> extra);
          discoverView = fromSavedQuery ext discoverQuery;
          target = getResultsViewUrlTarget ext discoverView (orgSlug opts)
      in TargetResult (target\<lparr>query := (query target)(''interval'' \<mapsto> Str timeWindowString)\<rparr>)))))"

section \<open>Classifying a message\<close>

text \<open>The template of a message and the components bound to its placeholders.\<close>

definition template :: "node \<Rightarrow> string" where
  "template m = (case m of T s \<Rightarrow> s | Tct s cs \<Rightarrow> s | _ \<Rightarrow> [])"

definition components :: "node \<Rightarrow> (string \<times> node) list" where
  "components m = (case m of Tct s cs \<Rightarrow> cs | _ \<Rightarrow> [])"

text \<open>The step of the specification's algorithm (numbered 2 to 7; step 1 is
  the lookup in the activity history) that a message belongs to, read off its template.
  Steps 4 and 5 have two phrasings each.\<close>

definition message_branch :: "node \<Rightarrow> nat option" where
  "message_branch m =
     (let s = template m in
      if s = ''[actor] marked this issue as resolved in the upcoming release.'' then Some 2
      else if s = ''This issue has been marked as resolved in the upcoming release.'' then Some 3
      else if s = ''[actor] marked this issue as resolved in versions greater than [version].''
        then Some 4
      else if s = ''[actor] marked this issue as resolved in version [version].'' then Some 4
      else if s = ''This issue has been marked as resolved in versions greater than [version].''
        then Some 5
      else if s = ''This issue has been marked as resolved in version [version].'' then Some 5
      else if s = ''This issue has been marked as resolved by [commit]'' then Some 6
      else if s = ''This issue has been marked as resolved.'' then Some 7
      else None)"

text \<open>The four conditions of the specification's priority order, and the one a message
  reports.\<close>

datatype reason_kind = NextRelease | Release | ByCommit | GenericResolved

definition kind_of :: "node \<Rightarrow> reason_kind option" where
  "kind_of m =
     (case message_branch m of
        None \<Rightarrow> None
      | Some b \<Rightarrow>
          Some (if b = 2 \<or> b = 3 then NextRelease
                else if b = 4 \<or> b = 5 then Release
                else if b = 6 then ByCommit
                else GenericResolved))"

text \<open>The specification's rule: the first condition that holds, in the order
  next-release, release, commit, generic-resolved.\<close>

definition first_match :: "ResolutionStatusDetails \<Rightarrow> reason_kind" where
  "first_match sd =
     (if truthy_bool (inNextRelease sd) then NextRelease
      else if truthy_str (inRelease sd) then Release
      else if truthy_obj (inCommit sd) then ByCommit
      else GenericResolved)"

text \<open>Whether a message uses the "versions greater than" phrasing.\<close>

definition versions_greater :: "node \<Rightarrow> bool" where
  "versions_greater m =
     (template m = ''[actor] marked this issue as resolved in versions greater than [version].''
      \<or> template m = ''This issue has been marked as resolved in versions greater than [version].'')"

text \<open>The badge the source builds for an actor.\<close>

abbreviation actor_badge :: "User \<Rightarrow> node" where
  "actor_badge u \<equiv> Strong [UserAvatar (Some u) 20 ''avatar'', Span (Some 5) [Text (name u)]]"

text \<open>Whether a message binds a component to the placeholder of the given name.\<close>

definition mentions :: "string \<Rightarrow> node \<Rightarrow> bool" where
  "mentions key m = (key \<in> fst ` set (components m))"

section \<open>Sample inputs\<close>

abbreviation alice :: User where
  "alice \<equiv> \<lparr>name = ''Alice''\<rparr>"

abbreviation commit_abc :: Commit where
  "commit_abc \<equiv> \<lparr>commit_id = ''abc123'', repository = Some ''sentry'',
                   dateCreated = ''2021-06-01T00:00:00Z''\<rparr>"

abbreviation resolved_in :: "string option \<Rightarrow> GroupActivity" where
  "resolved_in v \<equiv> \<lparr>type = SET_RESOLVED_IN_RELEASE, data = \<lparr>current_release_version = v\<rparr>\<rparr>"

abbreviation note_activity :: GroupActivity where
  "note_activity \<equiv> \<lparr>type = OTHER_ACTIVITY ''note'', data = \<lparr>current_release_version = None\<rparr>\<rparr>"

abbreviation everything_set :: ResolutionStatusDetails where
  "everything_set \<equiv> \<lparr>actor = Some alice, inNextRelease = Some True,
                       inRelease = Some ''1.2.0'', inCommit = Some commit_abc\<rparr>"

abbreviation released_by_alice :: ResolutionStatusDetails where
  "released_by_alice \<equiv> \<lparr>actor = Some alice, inNextRelease = None,
                          inRelease = Some ''1.2.0'', inCommit = None\<rparr>"

abbreviation commit_by_alice :: ResolutionStatusDetails where
  "commit_by_alice \<equiv> \<lparr>actor = Some alice, inNextRelease = Some False,
                        inRelease = None, inCommit = Some commit_abc\<rparr>"

abbreviation nothing_set :: ResolutionStatusDetails where
  "nothing_set \<equiv> \<lparr>actor = None, inNextRelease = None, inRelease = None, inCommit = None\<rparr>"

abbreviation sample_helpers ::
  "(string, string \<times> string, string jsobject, string) Helpers" where
  "sample_helpers \<equiv>
     \<lparr>getAggregateAlias = (\<lambda>s. s), getStartEndFromStats = (\<lambda>st. st), Number = (\<lambda>s. s),
      fromSavedQuery = (\<lambda>q. q),
      getResultsViewUrlTarget = (\<lambda>v org. \<lparr>query = v, toObject = ''/'' @ org\<rparr>)\<rparr>"

abbreviation sample_incident :: Incident where
  "sample_incident \<equiv>
     \<lparr>title = ''Too many errors'', discoverQuery = None, project_slugs = [''backend''],
      alertRule = \<lparr>timeWindow = 60, aggregate = ''count()'', dataset = ERRORS\<rparr>\<rparr>"

abbreviation sample_opts :: "(string, string \<times> string) Opts" where
  "sample_opts \<equiv>
     \<lparr>orgSlug = ''org'', projects = Some [\<lparr>project_id = ''1'', slug = ''backend''\<rparr>],
      incident = Some sample_incident, stats = Some (''2021-06-01'', ''2021-06-02''),
      extraQueryParams = None\<rparr>"
section \<open>Properties of renderReason\<close>

lemmas truthy_defs = truthy_bool_def truthy_str_def truthy_obj_def

lemma actor_node_cases:
  "actor_node a = (case a of None \<Rightarrow> Inr Null | Some u \<Rightarrow> Inr (actor_badge u))"
  by (simp add: actor_node_def truthy_obj_def split: option.splits)

lemma renderReason_next_actor:
  "truthy_bool (inNextRelease sd) \<Longrightarrow> actor sd = Some u \<Longrightarrow>
   renderReason sd pid acts =
     Inr (Tct ''[actor] marked this issue as resolved in the upcoming release.''
            [(''actor'', actor_badge u)])"
  by (simp add: renderReason_def actor_node_cases truthy_obj_def)

lemma renderReason_next_passive:
  "truthy_bool (inNextRelease sd) \<Longrightarrow> actor sd = None \<Longrightarrow>
   renderReason sd pid acts =
     Inr (T ''This issue has been marked as resolved in the upcoming release.'')"
  by (simp add: renderReason_def actor_node_cases truthy_obj_def)

lemma renderReason_release_actor:
  "\<not> truthy_bool (inNextRelease sd) \<Longrightarrow> truthy_str (inRelease sd) \<Longrightarrow> actor sd = Some u \<Longrightarrow>
   renderReason sd pid acts =
     (if truthy_str (currentReleaseVersion acts)
      then Inr (Tct ''[actor] marked this issue as resolved in versions greater than [version].''
                  [(''actor'', actor_badge u),
                   (''version'', Version (currentReleaseVersion acts) pid True)])
      else Inr (Tct ''[actor] marked this issue as resolved in version [version].''
                  [(''actor'', actor_badge u),
                   (''version'', Version (inRelease sd) pid True)]))"
  by (simp add: renderReason_def actor_node_cases truthy_obj_def Let_def)

lemma renderReason_release_passive:
  "\<not> truthy_bool (inNextRelease sd) \<Longrightarrow> truthy_str (inRelease sd) \<Longrightarrow> actor sd = None \<Longrightarrow>
   renderReason sd pid acts =
     (if truthy_str (currentReleaseVersion acts)
      then Inr (Tct ''This issue has been marked as resolved in versions greater than [version].''
                  [(''version'', Version (currentReleaseVersion acts) pid True)])
      else Inr (Tct ''This issue has been marked as resolved in version [version].''
                  [(''version'', Version (inRelease sd) pid True)]))"
  by (simp add: renderReason_def actor_node_cases truthy_obj_def Let_def)

lemma renderReason_commit:
  "\<not> truthy_bool (inNextRelease sd) \<Longrightarrow> \<not> truthy_str (inRelease sd) \<Longrightarrow>
   inCommit sd = Some c \<Longrightarrow>
   renderReason sd pid acts =
     Inr (Tct ''This issue has been marked as resolved by [commit]''
            [(''commit'',
              Fragment [CommitLink (commit_id c) (repository c),
                        StyledTimeSince (dateCreated c)])])"
  by (simp add: renderReason_def actor_node_cases truthy_obj_def Let_def split: option.splits)

lemma renderReason_generic:
  "\<not> truthy_bool (inNextRelease sd) \<Longrightarrow> \<not> truthy_str (inRelease sd) \<Longrightarrow>
   inCommit sd = None \<Longrightarrow>
   renderReason sd pid acts = Inr (T ''This issue has been marked as resolved.'')"
  by (simp add: renderReason_def actor_node_cases truthy_obj_def Let_def split: option.splits)


text \<open>An \<^verbatim>\<open>inRelease\<close> that is present but the empty string is falsy: the release
  branches are skipped.\<close>

lemma renderReason_empty_release:
  "renderReason (released_by_alice\<lparr>inRelease := Some []\<rparr>) pid acts =
     Inr (T ''This issue has been marked as resolved.'')"
  by (simp add: renderReason_generic truthy_defs)

lemma renderReason_cong_crv:
  "currentReleaseVersion acts1 = currentReleaseVersion acts2 \<Longrightarrow>
   renderReason sd pid acts1 = renderReason sd pid acts2"
  by (simp add: renderReason_def split: sum.splits)

lemma relevantActivity_first:
  "\<forall>x \<in> set pre. type x \<noteq> SET_RESOLVED_IN_RELEASE \<Longrightarrow> type a = SET_RESOLVED_IN_RELEASE \<Longrightarrow>
   relevantActivity (pre @ a # post) = Some a"
  by (induction pre) (simp_all add: relevantActivity_def)

lemma message_branch_simps:
  "message_branch (Tct ''[actor] marked this issue as resolved in the upcoming release.'' cs) = Some 2"
  "message_branch (T ''This issue has been marked as resolved in the upcoming release.'') = Some 3"
  "message_branch (Tct ''[actor] marked this issue as resolved in versions greater than [version].'' cs) = Some 4"
  "message_branch (Tct ''[actor] marked this issue as resolved in version [version].'' cs) = Some 4"
  "message_branch (Tct ''This issue has been marked as resolved in versions greater than [version].'' cs) = Some 5"
  "message_branch (Tct ''This issue has been marked as resolved in version [version].'' cs) = Some 5"
  "message_branch (Tct ''This issue has been marked as resolved by [commit]'' cs) = Some 6"
  "message_branch (T ''This issue has been marked as resolved.'') = Some 7"
  by (simp_all add: message_branch_def template_def)

lemma versions_greater_simps:
  "versions_greater (Tct ''[actor] marked this issue as resolved in the upcoming release.'' cs) = False"
  "versions_greater (T ''This issue has been marked as resolved in the upcoming release.'') = False"
  "versions_greater (Tct ''[actor] marked this issue as resolved in versions greater than [version].'' cs) = True"
  "versions_greater (Tct ''[actor] marked this issue as resolved in version [version].'' cs) = False"
  "versions_greater (Tct ''This issue has been marked as resolved in versions greater than [version].'' cs) = True"
  "versions_greater (Tct ''This issue has been marked as resolved in version [version].'' cs) = False"
  "versions_greater (Tct ''This issue has been marked as resolved by [commit]'' cs) = False"
  "versions_greater (T ''This issue has been marked as resolved.'') = False"
  by (simp_all add: versions_greater_def template_def)

text \<open>The message and its step in every case: the source's chain of conditions, one case
  per return statement.\<close>

lemma renderReason_branch:
  "\<exists>m b. renderReason sd pid acts = Inr m \<and> message_branch m = Some b \<and>
     b = (if truthy_bool (inNextRelease sd) then (if actor sd = None then 3 else 2)
          else if truthy_str (inRelease sd) then (if actor sd = None then 5 else 4)
          else if inCommit sd = None then 7 else 6) \<and>
     (versions_greater m \<longleftrightarrow>
        \<not> truthy_bool (inNextRelease sd) \<and> truthy_str (inRelease sd) \<and>
        truthy_str (currentReleaseVersion acts))"
proof (cases "truthy_bool (inNextRelease sd)")
  case True
  then show ?thesis
    by (cases "actor sd")
       (simp_all add: renderReason_next_actor renderReason_next_passive
          message_branch_simps versions_greater_simps)
next
  case nonext: False
  show ?thesis
  proof (cases "truthy_str (inRelease sd)")
    case True
    with nonext show ?thesis
      by (cases "actor sd")
         (simp_all add: renderReason_release_actor renderReason_release_passive
            message_branch_simps versions_greater_simps)
  next
    case False
    with nonext show ?thesis
      by (cases "inCommit sd")
         (simp_all add: renderReason_commit renderReason_generic
            message_branch_simps versions_greater_simps)
  qed
qed


section \<open>Properties of getIncidentDiscoverUrl\<close>

text \<open>The target built for a sample incident: the interval, the projects of the incident,
  the period of the statistics and the ordering.\<close>

lemma getIncidentDiscoverUrl_sample:
  "\<exists>t. getIncidentDiscoverUrl sample_helpers sample_opts = TargetResult t \<and>
     query t ''interval'' = Some (Str ''60m'') \<and>
     query t ''projects'' = Some (NumList [''1'']) \<and>
     query t ''start'' = Some (Str ''2021-06-01'') \<and>
     query t ''end'' = Some (Str ''2021-06-02'') \<and>
     query t ''orderby'' = Some (Str ''-count()'') \<and>
     query t ''fields'' = Some (StrList [''issue'', ''count()'', ''count_unique(user)'']) \<and>
     toObject t = ''/org''"
  by (simp add: getIncidentDiscoverUrl_def Let_def number_to_string.simps)
section \<open>The claims\<close>

text \<open>
  C1. For every input the message is the one of the first condition that holds in the
  order next-release, release, commit, generic-resolved. In particular, when
  \<^verbatim>\<open>inNextRelease\<close> is true and an actor is present, the message is "[actor] marked this
  issue as resolved in the upcoming release." with the actor's badge, whatever
  \<^verbatim>\<open>inRelease\<close>, \<^verbatim>\<open>inCommit\<close> and the activity history are.
\<close>

theorem renderReason_priority:
  "(\<exists>m. renderReason sd pid acts = Inr m \<and> kind_of m = Some (first_match sd)) \<and>
   (inNextRelease sd = Some True \<and> actor sd = Some u \<longrightarrow>
      renderReason sd pid acts =
        Inr (Tct ''[actor] marked this issue as resolved in the upcoming release.''
               [(''actor'', actor_badge u)]))"
proof
  obtain m b where m: "renderReason sd pid acts = Inr m" "message_branch m = Some b"
    and b: "b = (if truthy_bool (inNextRelease sd) then (if actor sd = None then 3 else 2)
                 else if truthy_str (inRelease sd) then (if actor sd = None then 5 else 4)
                 else if inCommit sd = None then 7 else 6)"
    using renderReason_branch [of sd pid acts] by blast
  have "kind_of m = Some (first_match sd)"
    using m(2) b by (simp add: kind_of_def first_match_def truthy_obj_def)
  with m(1) show "\<exists>m. renderReason sd pid acts = Inr m \<and> kind_of m = Some (first_match sd)"
    by blast
next
  show "inNextRelease sd = Some True \<and> actor sd = Some u \<longrightarrow>
      renderReason sd pid acts =
        Inr (Tct ''[actor] marked this issue as resolved in the upcoming release.''
               [(''actor'', actor_badge u)])"
    by (simp add: renderReason_next_actor truthy_bool_def)
qed

theorem renderReason_priority_witness:
  "inNextRelease everything_set = Some True \<and> actor everything_set = Some alice \<and>
   renderReason everything_set ''project'' [resolved_in (Some ''1.3.0'')] =
     Inr (Tct ''[actor] marked this issue as resolved in the upcoming release.''
            [(''actor'', actor_badge alice)])"
proof -
  have h: "inNextRelease everything_set = Some True \<and> actor everything_set = Some alice"
    by simp
  have "renderReason everything_set ''project'' [resolved_in (Some ''1.3.0'')] =
     Inr (Tct ''[actor] marked this issue as resolved in the upcoming release.''
            [(''actor'', actor_badge alice)])"
    using renderReason_priority
      [of everything_set "''project''" "[resolved_in (Some ''1.3.0'')]" alice] h
    by blast
  with h show ?thesis by blast
qed

text \<open>
  C2, as stated, fails: the history below contains a set-resolved-in-release entry with
  the non-empty version 1.3.0, but an earlier entry of the same type has none; the lookup
  stops at the earlier entry and the message falls back to the raw \<^verbatim>\<open>inRelease\<close>.
\<close>

theorem renderReason_versions_greater_counterexample:
  "\<not> truthy_bool (inNextRelease released_by_alice) \<and>
   truthy_str (inRelease released_by_alice) \<and>
   actor released_by_alice = Some alice \<and>
   resolved_in (Some ''1.3.0'') \<in> set [resolved_in None, resolved_in (Some ''1.3.0'')] \<and>
   type (resolved_in (Some ''1.3.0'')) = SET_RESOLVED_IN_RELEASE \<and>
   current_release_version (data (resolved_in (Some ''1.3.0''))) = Some ''1.3.0'' \<and>
   renderReason released_by_alice ''project'' [resolved_in None, resolved_in (Some ''1.3.0'')] \<noteq>
     Inr (Tct ''[actor] marked this issue as resolved in versions greater than [version].''
            [(''actor'', actor_badge alice),
             (''version'', Version (Some ''1.3.0'') ''project'' True)]) \<and>
   renderReason released_by_alice ''project'' [resolved_in None, resolved_in (Some ''1.3.0'')] =
     Inr (Tct ''[actor] marked this issue as resolved in version [version].''
            [(''actor'', actor_badge alice),
             (''version'', Version (Some ''1.2.0'') ''project'' True)])"
  by (simp add: renderReason_def actor_node_def currentReleaseVersion_def relevantActivity_def
        truthy_defs)

text \<open>
  C2, amended. For every input where \<^verbatim>\<open>inNextRelease\<close> is false or absent,
  \<^verbatim>\<open>inRelease\<close> is set, an actor is present, and the first entry of type
  set-resolved-in-release in the activity history has a non-empty
  \<^verbatim>\<open>current_release_version\<close>, the message is "[actor] marked this issue as resolved in
  versions greater than [version]." with that entry's \<^verbatim>\<open>current_release_version\<close> as
  the version, not the raw \<^verbatim>\<open>inRelease\<close>.
\<close>

theorem renderReason_versions_greater:
  assumes "\<not> truthy_bool (inNextRelease sd)" and "truthy_str (inRelease sd)"
    and "actor sd = Some u"
    and "relevantActivity acts = Some a"
    and "current_release_version (data a) = Some v" and "v \<noteq> []"
  shows "renderReason sd pid acts =
     Inr (Tct ''[actor] marked this issue as resolved in versions greater than [version].''
            [(''actor'', actor_badge u), (''version'', Version (Some v) pid True)])"
proof -
  have "currentReleaseVersion acts = Some v"
    using assms(4,5) by (simp add: currentReleaseVersion_def)
  moreover have "truthy_str (Some v)"
    using assms(6) by (simp add: truthy_str_def)
  ultimately show ?thesis
    using assms(1-3) by (simp add: renderReason_release_actor)
qed

theorem renderReason_versions_greater_witness:
  "\<not> truthy_bool (inNextRelease released_by_alice) \<and>
   truthy_str (inRelease released_by_alice) \<and>
   actor released_by_alice = Some alice \<and>
   relevantActivity [note_activity, resolved_in (Some ''1.3.0''), resolved_in None] =
     Some (resolved_in (Some ''1.3.0'')) \<and>
   current_release_version (data (resolved_in (Some ''1.3.0''))) = Some ''1.3.0'' \<and>
   ''1.3.0'' \<noteq> [] \<and>
   renderReason released_by_alice ''project''
       [note_activity, resolved_in (Some ''1.3.0''), resolved_in None] =
     Inr (Tct ''[actor] marked this issue as resolved in versions greater than [version].''
            [(''actor'', actor_badge alice),
             (''version'', Version (Some ''1.3.0'') ''project'' True)])"
proof -
  have h1: "\<not> truthy_bool (inNextRelease released_by_alice)"
    by (simp add: truthy_bool_def)
  have h2: "truthy_str (inRelease released_by_alice)"
    by (simp add: truthy_str_def)
  have h3: "actor released_by_alice = Some alice"
    by simp
  have h4: "relevantActivity [note_activity, resolved_in (Some ''1.3.0''), resolved_in None] =
     Some (resolved_in (Some ''1.3.0''))"
    by (simp add: relevantActivity_def)
  have h5: "current_release_version (data (resolved_in (Some ''1.3.0''))) = Some ''1.3.0''"
    by simp
  have h6: "''1.3.0'' \<noteq> []"
    by simp
  note renderReason_versions_greater [OF h1 h2 h3 h4 h5 h6, of "''project''"]
  with h1 h2 h3 h4 h5 h6 show ?thesis
    by (intro conjI)
qed

text \<open>
  C3. For every input where \<^verbatim>\<open>inNextRelease\<close> is false or absent, \<^verbatim>\<open>inRelease\<close> is
  set, an actor is present, and the activity history is empty, or has no entry of type
  set-resolved-in-release, or the entry the lookup finds has no
  \<^verbatim>\<open>current_release_version\<close>, the message is "[actor] marked this issue as resolved in
  version [version]." with the raw \<^verbatim>\<open>inRelease\<close> as the version.
\<close>

theorem renderReason_raw_version:
  assumes "\<not> truthy_bool (inNextRelease sd)"
    and "inRelease sd = Some r" and "r \<noteq> []"
    and "actor sd = Some u"
    and "acts = [] \<or> (\<forall>x \<in> set acts. type x \<noteq> SET_RESOLVED_IN_RELEASE) \<or>
         (\<exists>a. relevantActivity acts = Some a \<and> current_release_version (data a) = None)"
  shows "renderReason sd pid acts =
     Inr (Tct ''[actor] marked this issue as resolved in version [version].''
            [(''actor'', actor_badge u), (''version'', Version (Some r) pid True)])"
proof -
  have "currentReleaseVersion acts = None"
  proof (cases "relevantActivity acts")
    case None
    then show ?thesis by (simp add: currentReleaseVersion_def)
  next
    case (Some a)
    then have "a \<in> set acts" "type a = SET_RESOLVED_IN_RELEASE"
      by (auto simp: relevantActivity_def find_Some_iff)
    with assms(5) Some have "current_release_version (data a) = None"
      by auto
    with Some show ?thesis by (simp add: currentReleaseVersion_def)
  qed
  then have "\<not> truthy_str (currentReleaseVersion acts)"
    by (simp add: truthy_str_def)
  moreover have "truthy_str (inRelease sd)"
    using assms(2,3) by (simp add: truthy_str_def)
  ultimately show ?thesis
    using assms(1,2,4) by (simp add: renderReason_release_actor)
qed

theorem renderReason_raw_version_witness:
  "\<not> truthy_bool (inNextRelease released_by_alice) \<and>
   inRelease released_by_alice = Some ''1.2.0'' \<and> ''1.2.0'' \<noteq> [] \<and>
   actor released_by_alice = Some alice \<and>
   relevantActivity [note_activity, resolved_in None] = Some (resolved_in None) \<and>
   current_release_version (data (resolved_in None)) = None \<and>
   renderReason released_by_alice ''project'' [] =
     Inr (Tct ''[actor] marked this issue as resolved in version [version].''
            [(''actor'', actor_badge alice),
             (''version'', Version (Some ''1.2.0'') ''project'' True)]) \<and>
   renderReason released_by_alice ''project'' [note_activity] =
     Inr (Tct ''[actor] marked this issue as resolved in version [version].''
            [(''actor'', actor_badge alice),
             (''version'', Version (Some ''1.2.0'') ''project'' True)]) \<and>
   renderReason released_by_alice ''project'' [note_activity, resolved_in None] =
     Inr (Tct ''[actor] marked this issue as resolved in version [version].''
            [(''actor'', actor_badge alice),
             (''version'', Version (Some ''1.2.0'') ''project'' True)])"
proof -
  have h1: "\<not> truthy_bool (inNextRelease released_by_alice)"
    by (simp add: truthy_bool_def)
  have h2: "inRelease released_by_alice = Some ''1.2.0''"
    by simp
  have h3: "''1.2.0'' \<noteq> []"
    by simp
  have h4: "actor released_by_alice = Some alice"
    by simp
  have l: "relevantActivity [note_activity, resolved_in None] = Some (resolved_in None)"
    by (simp add: relevantActivity_def)
  have d: "current_release_version (data (resolved_in None)) = None"
    by simp
  have e1: "[] = [] \<or> (\<forall>x \<in> set []. type x \<noteq> SET_RESOLVED_IN_RELEASE) \<or>
         (\<exists>a. relevantActivity [] = Some a \<and> current_release_version (data a) = None)"
    by simp
  have e2: "[note_activity] = [] \<or>
         (\<forall>x \<in> set [note_activity]. type x \<noteq> SET_RESOLVED_IN_RELEASE) \<or>
         (\<exists>a. relevantActivity [note_activity] = Some a \<and>
              current_release_version (data a) = None)"
    by simp
  have e3: "[note_activity, resolved_in None] = [] \<or>
         (\<forall>x \<in> set [note_activity, resolved_in None]. type x \<noteq> SET_RESOLVED_IN_RELEASE) \<or>
         (\<exists>a. relevantActivity [note_activity, resolved_in None] = Some a \<and>
              current_release_version (data a) = None)"
    using l d by blast
  note renderReason_raw_version [OF h1 h2 h3 h4 e1, of "''project''"]
    renderReason_raw_version [OF h1 h2 h3 h4 e2, of "''project''"]
    renderReason_raw_version [OF h1 h2 h3 h4 e3, of "''project''"]
  with h1 h2 h3 h4 l d show ?thesis
    by (intro conjI)
qed

text \<open>
  C4. For every input where \<^verbatim>\<open>inNextRelease\<close> and \<^verbatim>\<open>inRelease\<close> are unset or false and
  \<^verbatim>\<open>inCommit\<close> is set, the message is "This issue has been marked as resolved by [commit]",
  the commit component being the link of the commit's id and repository followed by the time
  since its \<^verbatim>\<open>dateCreated\<close>; the message binds no version and no actor, also when an actor
  is present.
\<close>

theorem renderReason_in_commit:
  assumes "\<not> truthy_bool (inNextRelease sd)" and "\<not> truthy_str (inRelease sd)"
    and "inCommit sd = Some c"
  shows "\<exists>m. renderReason sd pid acts = Inr m \<and>
     m = Tct ''This issue has been marked as resolved by [commit]''
           [(''commit'',
             Fragment [CommitLink (commit_id c) (repository c),
                       StyledTimeSince (dateCreated c)])] \<and>
     \<not> mentions ''version'' m \<and> \<not> mentions ''actor'' m \<and> \<not> versions_greater m"
  using assms
  by (simp add: renderReason_commit mentions_def components_def versions_greater_simps)

theorem renderReason_in_commit_witness:
  "\<not> truthy_bool (inNextRelease commit_by_alice) \<and>
   \<not> truthy_str (inRelease commit_by_alice) \<and>
   inCommit commit_by_alice = Some commit_abc \<and>
   actor commit_by_alice = Some alice \<and>
   (\<exists>m. renderReason commit_by_alice ''project'' [resolved_in (Some ''1.3.0'')] = Inr m \<and>
     m = Tct ''This issue has been marked as resolved by [commit]''
           [(''commit'',
             Fragment [CommitLink ''abc123'' (Some ''sentry''),
                       StyledTimeSince ''2021-06-01T00:00:00Z''])] \<and>
     \<not> mentions ''version'' m \<and> \<not> mentions ''actor'' m \<and> \<not> versions_greater m)"
proof -
  have h1: "\<not> truthy_bool (inNextRelease commit_by_alice)"
    by (simp add: truthy_bool_def)
  have h2: "\<not> truthy_str (inRelease commit_by_alice)"
    by (simp add: truthy_str_def)
  have h3: "inCommit commit_by_alice = Some commit_abc"
    by simp
  have h4: "actor commit_by_alice = Some alice"
    by simp
  from renderReason_in_commit
    [OF h1 h2 h3, of "''project''" "[resolved_in (Some ''1.3.0'')]"]
  have "\<exists>m. renderReason commit_by_alice ''project'' [resolved_in (Some ''1.3.0'')] = Inr m \<and>
     m = Tct ''This issue has been marked as resolved by [commit]''
           [(''commit'',
             Fragment [CommitLink ''abc123'' (Some ''sentry''),
                       StyledTimeSince ''2021-06-01T00:00:00Z''])] \<and>
     \<not> mentions ''version'' m \<and> \<not> mentions ''actor'' m \<and> \<not> versions_greater m"
    by simp
  with h1 h2 h3 h4 show ?thesis
    by (intro conjI)
qed

text \<open>
  C5. For every input where none of \<^verbatim>\<open>inNextRelease\<close>, \<^verbatim>\<open>inRelease\<close> and \<^verbatim>\<open>inCommit\<close>
  is set, the result is exactly "This issue has been marked as resolved.", for any actor
  and any activity history.
\<close>

theorem renderReason_fallback:
  assumes "\<not> truthy_bool (inNextRelease sd)" and "\<not> truthy_str (inRelease sd)"
    and "\<not> truthy_obj (inCommit sd)"
  shows "renderReason sd pid acts = Inr (T ''This issue has been marked as resolved.'')"
  using assms by (simp add: renderReason_generic truthy_obj_def)

theorem renderReason_fallback_witness:
  "\<not> truthy_bool (inNextRelease (nothing_set\<lparr>actor := Some alice\<rparr>)) \<and>
   \<not> truthy_str (inRelease (nothing_set\<lparr>actor := Some alice\<rparr>)) \<and>
   \<not> truthy_obj (inCommit (nothing_set\<lparr>actor := Some alice\<rparr>)) \<and>
   renderReason (nothing_set\<lparr>actor := Some alice\<rparr>) ''project'' [resolved_in (Some ''1.3.0'')] =
     Inr (T ''This issue has been marked as resolved.'')"
proof -
  have h1: "\<not> truthy_bool (inNextRelease (nothing_set\<lparr>actor := Some alice\<rparr>))"
    by (simp add: truthy_bool_def)
  have h2: "\<not> truthy_str (inRelease (nothing_set\<lparr>actor := Some alice\<rparr>))"
    by (simp add: truthy_str_def)
  have h3: "\<not> truthy_obj (inCommit (nothing_set\<lparr>actor := Some alice\<rparr>))"
    by (simp add: truthy_obj_def)
  note renderReason_fallback [OF h1 h2 h3, of "''project''" "[resolved_in (Some ''1.3.0'')]"]
  with h1 h2 h3 show ?thesis
    by (intro conjI)
qed

text \<open>
  C6. The \<^verbatim>\<open>current_release_version\<close> found in the activity history matters in the two
  \<^verbatim>\<open>inRelease\<close> branches only: for a \<^verbatim>\<open>statusDetails\<close> that selects the next-release, the
  commit or the fallback branch, any two activity histories give the same result.
\<close>

theorem renderReason_activities_irrelevant:
  assumes "first_match sd \<noteq> Release"
  shows "renderReason sd pid acts1 = renderReason sd pid acts2"
proof (cases "truthy_bool (inNextRelease sd)")
  case True
  then show ?thesis
    by (cases "actor sd") (simp_all add: renderReason_next_actor renderReason_next_passive)
next
  case False
  with assms have "\<not> truthy_str (inRelease sd)"
    by (simp add: first_match_def split: if_splits)
  with False show ?thesis
    by (cases "inCommit sd") (simp_all add: renderReason_commit renderReason_generic)
qed

theorem renderReason_activities_irrelevant_witness:
  "first_match everything_set \<noteq> Release \<and>
   first_match commit_by_alice \<noteq> Release \<and>
   first_match nothing_set \<noteq> Release \<and>
   renderReason everything_set ''project'' [] =
     renderReason everything_set ''project'' [resolved_in (Some ''1.3.0'')] \<and>
   renderReason commit_by_alice ''project'' [] =
     renderReason commit_by_alice ''project'' [resolved_in (Some ''1.3.0'')] \<and>
   renderReason nothing_set ''project'' [] =
     renderReason nothing_set ''project'' [resolved_in (Some ''1.3.0'')]"
proof -
  have h1: "first_match everything_set \<noteq> Release"
    by (simp add: first_match_def truthy_defs)
  have h2: "first_match commit_by_alice \<noteq> Release"
    by (simp add: first_match_def truthy_defs)
  have h3: "first_match nothing_set \<noteq> Release"
    by (simp add: first_match_def truthy_defs)
  note renderReason_activities_irrelevant
      [OF h1, of "''project''" "[]" "[resolved_in (Some ''1.3.0'')]"]
    renderReason_activities_irrelevant
      [OF h2, of "''project''" "[]" "[resolved_in (Some ''1.3.0'')]"]
    renderReason_activities_irrelevant
      [OF h3, of "''project''" "[]" "[resolved_in (Some ''1.3.0'')]"]
  with h1 h2 h3 show ?thesis
    by (intro conjI)
qed

text \<open>
  C7. The function never throws and always returns a message of one of the steps 2 to 7 of
  the specification's algorithm, whatever fields are present and whatever the activity
  history holds, also when the entry found has no \<^verbatim>\<open>current_release_version\<close>. Absent
  fields degrade: without an actor the message is one of the passive ones (steps 3, 5, 6,
  7); without a \<^verbatim>\<open>current_release_version\<close> it never uses the "versions greater than"
  phrasing; with no field at all it is the fallback of step 7.
\<close>

theorem renderReason_total:
  "\<exists>m b. renderReason sd pid acts = Inr m \<and> message_branch m = Some b \<and>
     2 \<le> b \<and> b \<le> 7 \<and>
     (actor sd = None \<longrightarrow> b = 3 \<or> b = 5 \<or> b = 6 \<or> b = 7) \<and>
     (currentReleaseVersion acts = None \<longrightarrow> \<not> versions_greater m) \<and>
     (inNextRelease sd = None \<and> inRelease sd = None \<and> inCommit sd = None \<longrightarrow> b = 7)"
proof -
  obtain m b where m: "renderReason sd pid acts = Inr m" "message_branch m = Some b"
    and b: "b = (if truthy_bool (inNextRelease sd) then (if actor sd = None then 3 else 2)
                 else if truthy_str (inRelease sd) then (if actor sd = None then 5 else 4)
                 else if inCommit sd = None then 7 else 6)"
    and g: "versions_greater m \<longleftrightarrow>
        \<not> truthy_bool (inNextRelease sd) \<and> truthy_str (inRelease sd) \<and>
        truthy_str (currentReleaseVersion acts)"
    using renderReason_branch [of sd pid acts] by blast
  have "2 \<le> b \<and> b \<le> 7"
    using b by simp
  moreover have "actor sd = None \<longrightarrow> b = 3 \<or> b = 5 \<or> b = 6 \<or> b = 7"
    using b by simp
  moreover have "currentReleaseVersion acts = None \<longrightarrow> \<not> versions_greater m"
    using g by (simp add: truthy_str_def)
  moreover have "inNextRelease sd = None \<and> inRelease sd = None \<and> inCommit sd = None \<longrightarrow> b = 7"
    using b by (simp add: truthy_bool_def truthy_str_def)
  ultimately show ?thesis
    using m by (intro exI [of _ m] exI [of _ b]) simp
qed

theorem renderReason_total_witness:
  "actor nothing_set = None \<and> currentReleaseVersion [resolved_in None] = None \<and>
   inNextRelease nothing_set = None \<and> inRelease nothing_set = None \<and>
   inCommit nothing_set = None \<and>
   (\<exists>m. renderReason nothing_set ''project'' [resolved_in None] = Inr m \<and>
      message_branch m = Some 7 \<and> \<not> versions_greater m)"
proof -
  have h: "actor nothing_set = None" "currentReleaseVersion [resolved_in None] = None"
    "inNextRelease nothing_set = None" "inRelease nothing_set = None"
    "inCommit nothing_set = None"
    by (simp_all add: currentReleaseVersion_def relevantActivity_def)
  have "\<exists>m. renderReason nothing_set ''project'' [resolved_in None] = Inr m \<and>
      message_branch m = Some 7 \<and> \<not> versions_greater m"
    using renderReason_total [of nothing_set "''project''" "[resolved_in None]"] h
    by auto
  with h show ?thesis
    by (intro conjI)
qed

text \<open>
  C8. The lookup returns the first entry of type set-resolved-in-release: in a history
  \<open>pre @ a # post\<close> where \<open>a\<close> has that type and no entry of \<open>pre\<close> has, the entry
  found is \<open>a\<close> and the version used is that of \<open>a\<close>, whatever entries of that type
  follow in \<open>post\<close>; the result is the one for the history \<open>[a]\<close>.
\<close>

theorem relevantActivity_first_match:
  assumes "\<forall>x \<in> set pre. type x \<noteq> SET_RESOLVED_IN_RELEASE"
    and "type a = SET_RESOLVED_IN_RELEASE"
  shows "relevantActivity (pre @ a # post) = Some a \<and>
     currentReleaseVersion (pre @ a # post) = current_release_version (data a) \<and>
     renderReason sd pid (pre @ a # post) = renderReason sd pid [a]"
proof -
  have f: "relevantActivity (pre @ a # post) = Some a"
    using assms by (rule relevantActivity_first)
  then have c: "currentReleaseVersion (pre @ a # post) = current_release_version (data a)"
    by (simp add: currentReleaseVersion_def)
  have "currentReleaseVersion [a] = current_release_version (data a)"
    using assms(2) by (simp add: currentReleaseVersion_def relevantActivity_def)
  with c have "renderReason sd pid (pre @ a # post) = renderReason sd pid [a]"
    by (simp add: renderReason_cong_crv)
  with f c show ?thesis by simp
qed

theorem relevantActivity_first_match_witness:
  "type note_activity \<noteq> SET_RESOLVED_IN_RELEASE \<and>
   type (resolved_in (Some ''1.3.0'')) = SET_RESOLVED_IN_RELEASE \<and>
   relevantActivity ([note_activity] @ resolved_in (Some ''1.3.0'') #
       [note_activity, resolved_in (Some ''2.0.0'')]) = Some (resolved_in (Some ''1.3.0'')) \<and>
   currentReleaseVersion ([note_activity] @ resolved_in (Some ''1.3.0'') #
       [note_activity, resolved_in (Some ''2.0.0'')]) = Some ''1.3.0'' \<and>
   renderReason released_by_alice ''project'' ([note_activity] @ resolved_in (Some ''1.3.0'') #
       [note_activity, resolved_in (Some ''2.0.0'')]) =
     renderReason released_by_alice ''project'' [resolved_in (Some ''1.3.0'')]"
proof -
  have h1: "\<forall>x \<in> set [note_activity]. type x \<noteq> SET_RESOLVED_IN_RELEASE"
    by simp
  have h2: "type (resolved_in (Some ''1.3.0'')) = SET_RESOLVED_IN_RELEASE"
    by simp
  from relevantActivity_first_match [OF h1 h2,
      of "[note_activity, resolved_in (Some ''2.0.0'')]" released_by_alice "''project''"]
  have "relevantActivity ([note_activity] @ resolved_in (Some ''1.3.0'') #
       [note_activity, resolved_in (Some ''2.0.0'')]) = Some (resolved_in (Some ''1.3.0'')) \<and>
   currentReleaseVersion ([note_activity] @ resolved_in (Some ''1.3.0'') #
       [note_activity, resolved_in (Some ''2.0.0'')]) = Some ''1.3.0'' \<and>
   renderReason released_by_alice ''project'' ([note_activity] @ resolved_in (Some ''1.3.0'') #
       [note_activity, resolved_in (Some ''2.0.0'')]) =
     renderReason released_by_alice ''project'' [resolved_in (Some ''1.3.0'')]"
    by simp
  moreover have "type note_activity \<noteq> SET_RESOLVED_IN_RELEASE"
    by simp
  ultimately show ?thesis
    using h2 by blast
qed

text \<open>
  C9. Without an \<^verbatim>\<open>activities\<close> prop the component renders what it renders for the empty
  activity history: the banner around \<open>renderReason statusDetails projectId []\<close>, a
  message that never uses the "versions greater than" phrasing.
\<close>

theorem ResolutionBox_default_activities:
  assumes "activities props = None"
  shows "ResolutionBox props = ResolutionBox (props\<lparr>activities := Some []\<rparr>) \<and>
     (\<exists>m. renderReason (statusDetails props) (projectId props) [] = Inr m \<and>
        \<not> versions_greater m \<and>
        ResolutionBox props =
          Inr (BannerContainer ''default''
                 [BannerSummary [StyledIconCheckmark ''green300'', Span None [m]]]))"
proof -
  obtain m where m: "renderReason (statusDetails props) (projectId props) [] = Inr m"
    and g: "versions_greater m \<longleftrightarrow>
        \<not> truthy_bool (inNextRelease (statusDetails props)) \<and>
        truthy_str (inRelease (statusDetails props)) \<and>
        truthy_str (currentReleaseVersion [])"
    using renderReason_branch [of "statusDetails props" "projectId props" "[]"] by blast
  have "\<not> versions_greater m"
    using g by (simp add: currentReleaseVersion_def relevantActivity_def truthy_str_def)
  moreover have "ResolutionBox props = ResolutionBox (props\<lparr>activities := Some []\<rparr>)"
    using assms by (simp add: ResolutionBox_def)
  moreover have "ResolutionBox props =
          Inr (BannerContainer ''default''
                 [BannerSummary [StyledIconCheckmark ''green300'', Span None [m]]])"
    using assms m by (simp add: ResolutionBox_def)
  ultimately show ?thesis
    using m by blast
qed

theorem ResolutionBox_default_activities_witness:
  "activities \<lparr>statusDetails = released_by_alice, projectId = ''project'',
      activities = None\<rparr> = None \<and>
   ResolutionBox \<lparr>statusDetails = released_by_alice, projectId = ''project'',
      activities = None\<rparr> =
   ResolutionBox \<lparr>statusDetails = released_by_alice, projectId = ''project'',
      activities = Some []\<rparr> \<and>
   (\<exists>m. renderReason released_by_alice ''project'' [] = Inr m \<and>
      \<not> versions_greater m \<and>
      ResolutionBox \<lparr>statusDetails = released_by_alice, projectId = ''project'',
          activities = None\<rparr> =
        Inr (BannerContainer ''default''
               [BannerSummary [StyledIconCheckmark ''green300'', Span None [m]]]))"
proof -
  have h: "activities \<lparr>statusDetails = released_by_alice, projectId = ''project'',
      activities = None\<rparr> = None"
    by simp
  from h ResolutionBox_default_activities [OF h, unfolded Props.simps]
  show ?thesis
    by (rule conjI)
qed

text \<open>
  C10. The function returns the empty string exactly when \<^verbatim>\<open>projects\<close> is absent or
  empty, or \<^verbatim>\<open>incident\<close> is absent, or \<^verbatim>\<open>stats\<close> is absent; it returns a target object
  exactly when the three are present and \<^verbatim>\<open>projects\<close> is not empty.
\<close>

theorem getIncidentDiscoverUrl_empty_or_target:
  "(getIncidentDiscoverUrl ext opts = StringResult '''' \<longleftrightarrow>
      projects opts = None \<or> projects opts = Some [] \<or> incident opts = None \<or>
      stats opts = None) \<and>
   ((\<exists>t. getIncidentDiscoverUrl ext opts = TargetResult t) \<longleftrightarrow>
      (\<exists>ps inc st. projects opts = Some ps \<and> ps \<noteq> [] \<and> incident opts = Some inc \<and>
         stats opts = Some st))"
  by (auto simp: getIncidentDiscoverUrl_def Let_def split: option.splits prod.splits)

theorem getIncidentDiscoverUrl_empty_or_target_witness:
  "stats (sample_opts\<lparr>stats := None\<rparr>) = None \<and>
   getIncidentDiscoverUrl sample_helpers (sample_opts\<lparr>stats := None\<rparr>) = StringResult '''' \<and>
   getIncidentDiscoverUrl sample_helpers (sample_opts\<lparr>projects := Some []\<rparr>) = StringResult '''' \<and>
   getIncidentDiscoverUrl sample_helpers (sample_opts\<lparr>projects := None\<rparr>) = StringResult '''' \<and>
   getIncidentDiscoverUrl sample_helpers (sample_opts\<lparr>incident := None\<rparr>) = StringResult '''' \<and>
   (\<exists>t. getIncidentDiscoverUrl sample_helpers sample_opts = TargetResult t)"
proof -
  have "stats (sample_opts\<lparr>stats := None\<rparr>) = None"
    by simp
  moreover have
    "getIncidentDiscoverUrl sample_helpers (sample_opts\<lparr>stats := None\<rparr>) = StringResult ''''"
    using getIncidentDiscoverUrl_empty_or_target
      [of sample_helpers "sample_opts\<lparr>stats := None\<rparr>"]
    by simp
  moreover have
    "getIncidentDiscoverUrl sample_helpers (sample_opts\<lparr>projects := Some []\<rparr>) = StringResult ''''"
    using getIncidentDiscoverUrl_empty_or_target
      [of sample_helpers "sample_opts\<lparr>projects := Some []\<rparr>"]
    by simp
  moreover have
    "getIncidentDiscoverUrl sample_helpers (sample_opts\<lparr>projects := None\<rparr>) = StringResult ''''"
    using getIncidentDiscoverUrl_empty_or_target
      [of sample_helpers "sample_opts\<lparr>projects := None\<rparr>"]
    by simp
  moreover have
    "getIncidentDiscoverUrl sample_helpers (sample_opts\<lparr>incident := None\<rparr>) = StringResult ''''"
    using getIncidentDiscoverUrl_empty_or_target
      [of sample_helpers "sample_opts\<lparr>incident := None\<rparr>"]
    by simp
  moreover have "\<exists>t. getIncidentDiscoverUrl sample_helpers sample_opts = TargetResult t"
    using getIncidentDiscoverUrl_empty_or_target [of sample_helpers sample_opts]
    by simp
  ultimately show ?thesis
    by (intro conjI)
qed


end
